theory Spec2Isabelle
  imports Complex_Main "HOL-Library.AList"
begin

section \<open>Values, errors and paths shared by both programs\<close>

text \<open>
  Exceptions of the Python sources are values: every call that can raise returns
  \<open>error + 'a\<close>, with \<open>Inl\<close> the exception, and every \<^verbatim>\<open>try/except\<close> of the source is a
  case distinction of the model.
\<close>

datatype error =
    AttributeError
  | TypeError
  | ValueError
  | NoSuchElementException
  | TimeoutException
  | WebDriverException

text \<open>
  What \<^verbatim>\<open>json.load\<close> returns. A dictionary is an association list in insertion order;
  \<^verbatim>\<open>d[k] = v\<close> is \<^const>\<open>AList.update\<close> (the value is replaced in place when the key is
  there, the pair is appended when it is not) and a lookup is \<^const>\<open>map_of\<close>. Of a float
  the programs only ever test the truth value, so a real number stands for it.
\<close>

datatype json =
    JNull
  | JBool bool
  | JInt int
  | JFloat real
  | JStr string
  | JList "json list"
  | JDict "(string \<times> json) list"

text \<open>Python's truth value of a loaded JSON value (\<^verbatim>\<open>if not video_url\<close>).\<close>

fun truthy :: "json \<Rightarrow> bool" where
  "truthy JNull = False"
| "truthy (JBool b) = b"
| "truthy (JInt i) = (i \<noteq> 0)"
| "truthy (JFloat r) = (r \<noteq> 0)"
| "truthy (JStr s) = (s \<noteq> [])"
| "truthy (JList xs) = (xs \<noteq> [])"
| "truthy (JDict kvs) = (kvs \<noteq> [])"

text \<open>\<^verbatim>\<open>d.get(k, default)\<close> on a dictionary.\<close>

definition dict_get :: "(string \<times> json) list \<Rightarrow> string \<Rightarrow> json \<Rightarrow> json" where
  "dict_get kvs k d = (case map_of kvs k of None \<Rightarrow> d | Some v \<Rightarrow> v)"

text \<open>\<^verbatim>\<open>s.endswith(suffix)\<close>.\<close>

definition endswith :: "string \<Rightarrow> string \<Rightarrow> bool" where
  "endswith s suf = (take (length suf) (rev s) = rev suf)"

text \<open>
  \<^verbatim>\<open>os.path\<close> on a POSIX system: \<^verbatim>\<open>basename\<close> is what follows the last slash,
  \<^verbatim>\<open>dirname\<close> what precedes it (trailing slashes removed unless only slashes are left),
  \<^verbatim>\<open>join(a, b)\<close> restarts at an absolute \<open>b\<close> and otherwise inserts one slash unless \<open>a\<close>
  is empty or ends with one.
\<close>

definition basename :: "string \<Rightarrow> string" where
  "basename p = rev (takeWhile (\<lambda>c. c \<noteq> CHR ''/'') (rev p))"

definition dirname :: "string \<Rightarrow> string" where
  "dirname p =
     (let head = rev (dropWhile (\<lambda>c. c \<noteq> CHR ''/'') (rev p))
      in if head \<noteq> [] \<and> \<not> list_all (\<lambda>c. c = CHR ''/'') head
         then rev (dropWhile (\<lambda>c. c = CHR ''/'') (rev head))
         else head)"

definition path_join :: "string \<Rightarrow> string \<Rightarrow> string" where
  "path_join a b =
     (if take 1 b = ''/'' then b
      else if a = [] \<or> endswith a ''/'' then a @ b
      else a @ ''/'' @ b)"

section \<open>The downloader (video_downloader.py)\<close>

subsection \<open>The path component of a URL\<close>

text \<open>
  \<^verbatim>\<open>urlparse(url).path\<close> of the standard library, for a \<^verbatim>\<open>str\<close> argument, following
  \<^verbatim>\<open>urllib.parse.urlsplit\<close> and \<^verbatim>\<open>urlparse\<close> step by step: leading control characters and
  spaces are dropped and tab, carriage return and newline removed; a leading scheme
  (a letter, then scheme characters, up to the first colon) is split off; after
  \<^verbatim>\<open>//\<close> the network location runs to the first of \<^verbatim>\<open>/ ? #\<close>, and one with a single kind of
  square bracket raises \<^verbatim>\<open>ValueError\<close>; the fragment and the query are cut at the first
  \<^verbatim>\<open>#\<close> and \<^verbatim>\<open>?\<close>; for a scheme that takes parameters the last segment is cut at its first
  semicolon. Characters are bytes here, so the further checks the library makes on a
  non-ASCII or bracketed network location are not represented.
\<close>

definition to_lower :: "char \<Rightarrow> char" where
  "to_lower c =
     (if (65::nat) \<le> of_char c \<and> of_char c \<le> (90::nat)
      then char_of (of_char c + (32::nat)) else c)"

definition is_ascii_alpha :: "char \<Rightarrow> bool" where
  "is_ascii_alpha c =
     (((65::nat) \<le> of_char c \<and> of_char c \<le> (90::nat)) \<or>
      ((97::nat) \<le> of_char c \<and> of_char c \<le> (122::nat)))"

definition scheme_chars :: "string" where
  "scheme_chars =
     ''abcdefghijklmnopqrstuvwxyzABCDEFGHIJKLMNOPQRSTUVWXYZ0123456789+-.''"

definition uses_params :: "string list" where
  "uses_params =
     ['''', ''ftp'', ''hdl'', ''prospero'', ''http'', ''imap'', ''https'', ''shttp'',
      ''rtsp'', ''rtspu'', ''sip'', ''sips'', ''mms'', ''sftp'', ''tel'']"

definition clean_url :: "string \<Rightarrow> string" where
  "clean_url url =
     filter (\<lambda>c. c \<noteq> CHR 0x09 \<and> c \<noteq> CHR 0x0A \<and> c \<noteq> CHR 0x0D)
       (dropWhile (\<lambda>c. of_char c \<le> (32::nat)) url)"

definition split_scheme :: "string \<Rightarrow> string \<times> string" where
  "split_scheme url =
     (let pre = takeWhile (\<lambda>c. c \<noteq> CHR '':'') url;
          rest = dropWhile (\<lambda>c. c \<noteq> CHR '':'') url
      in case pre of
           [] \<Rightarrow> ('''', url)
         | c # cs \<Rightarrow>
             if rest \<noteq> [] \<and> is_ascii_alpha c \<and> list_all (\<lambda>x. x \<in> set scheme_chars) pre
             then (map to_lower pre, tl rest)
             else ('''', url))"

definition split_netloc :: "string \<Rightarrow> string \<times> string" where
  "split_netloc url =
     (if take 2 url = ''//''
      then (takeWhile (\<lambda>c. c \<notin> set ''/?#'') (drop 2 url),
            dropWhile (\<lambda>c. c \<notin> set ''/?#'') (drop 2 url))
      else ('''', url))"

definition split_params :: "string \<Rightarrow> string" where
  "split_params url =
     rev (dropWhile (\<lambda>c. c \<noteq> CHR ''/'') (rev url)) @
     takeWhile (\<lambda>c. c \<noteq> CHR '';'') (basename url)"

definition urlparse_path :: "string \<Rightarrow> error + string" where
  "urlparse_path url0 =
     (let (scheme, url1) = split_scheme (clean_url url0);
          (netloc, url2) = split_netloc url1
      in if (CHR ''['' \<in> set netloc) \<noteq> (CHR '']'' \<in> set netloc) then Inl ValueError
         else
           let url3 = takeWhile (\<lambda>c. c \<noteq> CHR ''?'') (takeWhile (\<lambda>c. c \<noteq> CHR ''#'') url2)
           in if scheme \<in> set uses_params \<and> CHR '';'' \<in> set url3
              then Inr (split_params url3)
              else Inr url3)"

subsection \<open>File names\<close>

text \<open>\<^verbatim>\<open>get_file_extension\<close> (lines 78-90).\<close>

definition get_file_extension :: "string \<Rightarrow> error + string" where
  "get_file_extension url =
     (case urlparse_path url of
        Inl e \<Rightarrow> Inl e
      | Inr path \<Rightarrow>
          if endswith path ''.mp4'' then Inr ''.mp4''
          else if endswith path ''.webm'' then Inr ''.webm''
          else if endswith path ''.mov'' then Inr ''.mov''
          else Inr ''.mp4'')"

text \<open>
  Lines 181-183 of \<^verbatim>\<open>download_category_videos\<close>:
  \<^verbatim>\<open>video_id = os.path.basename(urlparse(video_url).path).split('.')[0]\<close>, then the
  extension, then \<^verbatim>\<open>filename = f"{video_id}{extension}"\<close>.
\<close>

definition video_id_of :: "string \<Rightarrow> string" where
  "video_id_of path = takeWhile (\<lambda>c. c \<noteq> CHR ''.'') (basename path)"

definition derive_filename :: "string \<Rightarrow> error + string" where
  "derive_filename video_url =
     (case urlparse_path video_url of
        Inl e \<Rightarrow> Inl e
      | Inr path \<Rightarrow>
          (case get_file_extension video_url of
             Inl e \<Rightarrow> Inl e
           | Inr extension \<Rightarrow> Inr (video_id_of path @ extension)))"

subsection \<open>The file system, the log and the network\<close>

text \<open>
  A file holds raw bytes (a downloaded video) or a JSON document (a record file, as
  \<^verbatim>\<open>json.load\<close> reads it and \<^verbatim>\<open>json.dump\<close> writes it). \<^verbatim>\<open>os.path.exists\<close> is
  \<open>files w p \<noteq> None\<close>. Directories are not represented: \<^verbatim>\<open>os.makedirs\<close> of the videos
  folder and \<^verbatim>\<open>open(save_path, 'wb')\<close> inside it are taken to succeed.
\<close>

datatype content = Bytes string | Document json

text \<open>The lines the downloader's logger writes, in order.\<close>

datatype event =
    Downloading string
  | Downloaded string
  | FailedToDownload string
  | SkippingExisting string
  | ErrorProcessingVideo nat
  | UpdatedFile string
  | ErrorProcessingFile string

record world =
  files :: "string \<Rightarrow> content option"
  events :: "event list"

definition log_event :: "event \<Rightarrow> world \<Rightarrow> world" where
  "log_event e w = w\<lparr>events := events w @ [e]\<rparr>"

text \<open>
  The URLs fetched so far: \<^verbatim>\<open>download_video\<close> logs \<^verbatim>\<open>Downloading: url\<close> immediately
  before \<^verbatim>\<open>session.get\<close>, and nothing else touches the network.
\<close>

fun requested :: "event \<Rightarrow> string list" where
  "requested (Downloading u) = [u]"
| "requested _ = []"

definition requests :: "world \<Rightarrow> string list" where
  "requests w = concat (map requested (events w))"

fun is_failed :: "event \<Rightarrow> bool" where
  "is_failed (FailedToDownload u) = True"
| "is_failed _ = False"

definition failed_fetches :: "world \<Rightarrow> nat" where
  "failed_fetches w = length (filter is_failed (events w))"

text \<open>
  The server's answer to one \<^verbatim>\<open>session.get(url, stream=True)\<close>: either the request, the
  status check or the \<^verbatim>\<open>content-length\<close> parse raises before the output file is opened
  (\<open>Refused\<close>), or \<^verbatim>\<open>iter_content\<close> delivers the chunks and then ends normally (\<open>True\<close>)
  or raises (\<open>False\<close>). The answer may depend on the requests made before.
\<close>

datatype response = Refused | Stream "string list" bool

type_synonym network = "string list \<Rightarrow> string \<Rightarrow> response"

text \<open>The loop of lines 112-115: every non-empty chunk is written, in order.\<close>

definition write_chunks :: "string list \<Rightarrow> string" where
  "write_chunks chunks = concat (filter (\<lambda>chunk. chunk \<noteq> []) chunks)"

text \<open>
  \<^verbatim>\<open>download_video\<close> (lines 100-128). The file is opened for writing (created, or
  truncated) once the response is there, and the \<^verbatim>\<open>except\<close> branch does not remove it.
\<close>

definition download_video :: "network \<Rightarrow> string \<Rightarrow> string \<Rightarrow> world \<Rightarrow> bool \<times> world" where
  "download_video net video_url save_path w =
     (let w1 = log_event (Downloading video_url) w
      in case net (requests w) video_url of
           Refused \<Rightarrow> (False, log_event (FailedToDownload video_url) w1)
         | Stream chunks finished \<Rightarrow>
             let w2 = w1\<lparr>files := (files w1)(save_path \<mapsto> Bytes (write_chunks chunks))\<rparr>
             in if finished then (True, log_event (Downloaded (basename save_path)) w2)
                else (False, log_event (FailedToDownload video_url) w2))"

subsection \<open>One record, one record file\<close>

text \<open>Lines 192-193 and 201-202: the two assignments to the record.\<close>

definition enrich :: "string \<Rightarrow> string \<Rightarrow> (string \<times> json) list \<Rightarrow> (string \<times> json) list" where
  "enrich save_path filename kvs =
     AList.update ''filename'' (JStr filename)
       (AList.update ''local_file_path'' (JStr save_path) kvs)"

text \<open>
  The body of the loop over the records (lines 172-215) for the record \<open>video\<close> at
  index \<open>i\<close>; the result is what is appended to \<^verbatim>\<open>updated_videos\<close>. \<^verbatim>\<open>video.get\<close> raises
  on anything but a dictionary, and \<^verbatim>\<open>urlparse\<close> on anything but a string; both end in
  the \<^verbatim>\<open>except\<close> branch, which keeps the record as it is.
\<close>

definition process_video :: "network \<Rightarrow> string \<Rightarrow> nat \<Rightarrow> json \<Rightarrow> world \<Rightarrow> json \<times> world" where
  "process_video net videos_folder i video w =
     (case video of
        JDict kvs \<Rightarrow>
          (let video_url = dict_get kvs ''video_url'' (JStr [])
           in if \<not> truthy video_url then (video, w)
              else
                (case video_url of
                   JStr u \<Rightarrow>
                     (case derive_filename u of
                        Inl e \<Rightarrow> (video, log_event (ErrorProcessingVideo (i + 1)) w)
                      | Inr filename \<Rightarrow>
                          (let save_path = path_join videos_folder filename
                           in if files w save_path \<noteq> None
                              then (JDict (enrich save_path filename kvs),
                                    log_event (SkippingExisting filename) w)
                              else
                                (case download_video net u save_path w of
                                   (True, w') \<Rightarrow> (JDict (enrich save_path filename kvs), w')
                                 | (False, w') \<Rightarrow> (video, w'))))
                 | _ \<Rightarrow> (video, log_event (ErrorProcessingVideo (i + 1)) w)))
      | _ \<Rightarrow> (video, log_event (ErrorProcessingVideo (i + 1)) w))"

fun process_videos :: "network \<Rightarrow> string \<Rightarrow> nat \<Rightarrow> json list \<Rightarrow> world \<Rightarrow> json list \<times> world" where
  "process_videos net videos_folder i [] w = ([], w)"
| "process_videos net videos_folder i (video # videos) w =
     (let (video', w1) = process_video net videos_folder i video w;
          (updated_videos, w2) = process_videos net videos_folder (i + 1) videos w1
      in (video' # updated_videos, w2))"

text \<open>
  What \<^verbatim>\<open>len(videos)\<close> and \<^verbatim>\<open>enumerate(videos)\<close> make of the loaded value: a list is
  its elements, a string its characters, a dictionary its keys, and anything else has no
  length.
\<close>

fun iterate :: "json \<Rightarrow> error + json list" where
  "iterate (JList xs) = Inr xs"
| "iterate (JStr s) = Inr (map (\<lambda>c. JStr [c]) s)"
| "iterate (JDict kvs) = Inr (map (\<lambda>kv. JStr (fst kv)) kvs)"
| "iterate _ = Inl TypeError"

text \<open>
  Lines 160-164 and 218-222: the records of the loaded document, and the document that
  is written back (the same shape as the one that was read).
\<close>

definition videos_of :: "json \<Rightarrow> error + json list" where
  "videos_of videos_data =
     (case videos_data of
        JList xs \<Rightarrow> Inr xs
      | JDict kvs \<Rightarrow> iterate (dict_get kvs ''videos'' (JList []))
      | _ \<Rightarrow> Inl AttributeError)"

definition updated_json_data :: "json \<Rightarrow> json list \<Rightarrow> json" where
  "updated_json_data videos_data updated_videos =
     (case videos_data of
        JDict kvs \<Rightarrow> JDict (AList.update ''videos'' (JList updated_videos) kvs)
      | _ \<Rightarrow> JList updated_videos)"

text \<open>
  The body of the loop over the record files (lines 147-231) for the file
  \<open>json_file\<close>: an unreadable file or a document that is neither a list nor a wrapper ends
  in the outer \<^verbatim>\<open>except\<close>, which logs and leaves the file alone.
\<close>

definition process_json_file :: "network \<Rightarrow> string \<Rightarrow> world \<Rightarrow> world" where
  "process_json_file net json_file w =
     (let videos_folder = path_join (dirname json_file) ''videos''
      in case files w json_file of
           Some (Document videos_data) \<Rightarrow>
             (case videos_of videos_data of
                Inl e \<Rightarrow> log_event (ErrorProcessingFile json_file) w
              | Inr videos \<Rightarrow>
                  (let (updated_videos, w1) = process_videos net videos_folder 0 videos w;
                       w2 = w1\<lparr>files := (files w1)
                              (json_file \<mapsto> Document (updated_json_data videos_data updated_videos))\<rparr>
                   in log_event (UpdatedFile json_file) w2))
         | _ \<Rightarrow> log_event (ErrorProcessingFile json_file) w)"

text \<open>
  \<^verbatim>\<open>download_category_videos\<close>: the record files \<^verbatim>\<open>find_video_files\<close> returned are
  processed one after the other.
\<close>

definition download_category_videos :: "network \<Rightarrow> string list \<Rightarrow> world \<Rightarrow> world" where
  "download_category_videos net video_files w = fold (process_json_file net) video_files w"

section \<open>The scraper (simple_scraper.py)\<close>

text \<open>
  The browser is the environment. What each WebDriver call answers is a field of a record
  describing the page, the figure, the popup: \<open>Inl\<close> when the call raises, \<open>Inr\<close> with its
  value when it returns. The functions of the scraper are then the control flow of the
  source over these answers, and a theorem about all records is one about every
  behaviour of the browser.
\<close>

subsection \<open>Reading the popup\<close>

text \<open>
  \<^verbatim>\<open>str.strip()\<close> without arguments (the ASCII white space: tab, line feed, vertical tab,
  form feed, carriage return, the four separators and the blank).
\<close>

definition is_space :: "char \<Rightarrow> bool" where
  "is_space c =
     (((9::nat) \<le> of_char c \<and> of_char c \<le> (13::nat)) \<or>
      ((28::nat) \<le> of_char c \<and> of_char c \<le> (32::nat)))"

definition strip :: "string \<Rightarrow> string" where
  "strip s = rev (dropWhile is_space (rev (dropWhile is_space s)))"

text \<open>
  A lookup of \<^verbatim>\<open>video[src]\<close> followed by \<^verbatim>\<open>get_attribute('src')\<close>, inside a bare
  \<^verbatim>\<open>try/except\<close> that leaves \<^verbatim>\<open>video_url = None\<close> when either call raises (lines 192-198
  for a figure, 302-308 for the modal).
\<close>

type_synonym video_lookup = "error + (error + string option)"

definition read_video_src :: "video_lookup \<Rightarrow> string option" where
  "read_video_src r = (case r of Inr (Inr src) \<Rightarrow> src | _ \<Rightarrow> None)"

text \<open>
  The copy button: its text, and the lookup of the neighbouring element with that
  element's text.
\<close>

record copy_button =
  cb_text :: "error + string"
  cb_neighbour :: "error + (error + string)"

record modal =
  modal_video :: video_lookup
  modal_copy_button :: "error + copy_button"
  modal_prompt_element :: "error + (error + string)"

record extracted =
  ex_video_url :: "string option"
  ex_prompt :: "string option"

text \<open>
  Lines 314-324, the body of the first \<^verbatim>\<open>try\<close> once the copy button is found: it raises
  only when the button's text cannot be read.
\<close>

definition prompt_of_copy_button :: "copy_button \<Rightarrow> error + string" where
  "prompt_of_copy_button copy_button =
     (case cb_text copy_button of
        Inl e \<Rightarrow> Inl e
      | Inr t \<Rightarrow>
          (let prompt = strip t
           in if prompt = [] \<or> prompt = ''true''
              then (case cb_neighbour copy_button of
                      Inr (Inr t') \<Rightarrow> Inr (strip t')
                    | _ \<Rightarrow> Inr prompt)
              else Inr prompt))"

text \<open>Lines 326-332, the \<^verbatim>\<open>except\<close> branch: the generic prompt selectors.\<close>

definition fallback_prompt :: "modal \<Rightarrow> string option" where
  "fallback_prompt m =
     (case modal_prompt_element m of Inr (Inr t) \<Rightarrow> Some (strip t) | _ \<Rightarrow> None)"

definition extract_prompt :: "modal \<Rightarrow> string option" where
  "extract_prompt m =
     (case modal_copy_button m of
        Inl e \<Rightarrow> fallback_prompt m
      | Inr copy_button \<Rightarrow>
          (case prompt_of_copy_button copy_button of
             Inl e \<Rightarrow> fallback_prompt m
           | Inr prompt \<Rightarrow> Some prompt))"

text \<open>
  \<^verbatim>\<open>extract_prompt_from_popup\<close> (lines 292-341). The argument is the answer of the
  ten-second wait for the modal. The body of the outer \<^verbatim>\<open>try\<close> comes first, then the
  function with its \<^verbatim>\<open>except Exception: return None\<close>.
\<close>

definition extract_body :: "error + modal \<Rightarrow> error + extracted" where
  "extract_body wait_modal =
     (case wait_modal of
        Inl e \<Rightarrow> Inl e
      | Inr m \<Rightarrow>
          Inr \<lparr>ex_video_url = read_video_src (modal_video m), ex_prompt = extract_prompt m\<rparr>)"

definition extract_prompt_from_popup :: "error + modal \<Rightarrow> error + extracted option" where
  "extract_prompt_from_popup wait_modal =
     (case extract_body wait_modal of
        Inl e \<Rightarrow> Inr None
      | Inr data \<Rightarrow> Inr (Some data))"

subsection \<open>Closing the popup\<close>

record button =
  b_displayed :: "error + bool"
  b_enabled :: "error + bool"
  b_click :: "error + unit"
  b_js_click :: "error + unit"

record overlay =
  o_displayed :: "error + bool"
  o_click :: "error + unit"

text \<open>
  The answers of the browser during one call of \<^verbatim>\<open>close_popup\<close>: finding and clicking
  the body; the window size and a pointer click at an offset; the elements a close
  selector finds; finding the body again and the k-th escape key; the overlays; the
  history step.
\<close>

record closing =
  body_find :: "error + unit"
  body_click :: "error + unit"
  window_size :: "error + int \<times> int"
  pointer_click :: "int \<times> int \<Rightarrow> error + unit"
  find_close_buttons :: "string \<Rightarrow> error + button list"
  escape_body_find :: "error + unit"
  send_escape :: "nat \<Rightarrow> error + unit"
  find_overlays :: "error + overlay list"
  history_back :: "error + unit"

text \<open>
  What the routine did to the page, in order: every click, key and history step it
  issued, whether the call then raised or not.
\<close>

datatype action =
    BodyClick
  | PointerClick int int
  | ButtonClick string nat
  | ButtonJsClick string nat
  | EscapeKey nat
  | OverlayClick nat
  | BrowserBack

text \<open>Step 1 (lines 350-359): click the body.\<close>

definition step_body :: "closing \<Rightarrow> bool \<times> action list" where
  "step_body env =
     (case body_find env of
        Inl e \<Rightarrow> (False, [])
      | Inr _ \<Rightarrow>
          (case body_click env of
             Inl e \<Rightarrow> (False, [BodyClick])
           | Inr _ \<Rightarrow> (True, [BodyClick])))"

text \<open>Step 2 (lines 362-391): five positions, by pointer offset from the centre.\<close>

definition click_positions :: "int \<Rightarrow> int \<Rightarrow> (int \<times> int) list" where
  "click_positions width height =
     [(width div 4, height div 4),
      (3 * width div 4, height div 4),
      (width div 2, height div 2),
      (width div 4, 3 * height div 4),
      (3 * width div 4, 3 * height div 4)]"

fun try_positions :: "closing \<Rightarrow> int \<Rightarrow> int \<Rightarrow> (int \<times> int) list \<Rightarrow> bool \<times> action list" where
  "try_positions env width height [] = (False, [])"
| "try_positions env width height ((x, y) # ps) =
     (case pointer_click env (x - width div 2, y - height div 2) of
        Inr _ \<Rightarrow> (True, [PointerClick x y])
      | Inl e \<Rightarrow>
          (let (ok, acts) = try_positions env width height ps
           in (ok, PointerClick x y # acts)))"

definition step_positions :: "closing \<Rightarrow> bool \<times> action list" where
  "step_positions env =
     (case window_size env of
        Inl e \<Rightarrow> (False, [])
      | Inr (width, height) \<Rightarrow> try_positions env width height (click_positions width height))"

text \<open>
  Step 3 (lines 394-444): the close selectors. For one selector, the buttons found are
  tried in order; a button that is displayed and enabled is clicked, then clicked by
  script. A raising \<^verbatim>\<open>is_displayed\<close> or \<^verbatim>\<open>is_enabled\<close> ends the selector (the \<^verbatim>\<open>except\<close>
  around the inner loop), as a raising \<^verbatim>\<open>find_elements\<close> does.
\<close>

definition close_selectors :: "string list" where
  "close_selectors =
     [''[aria-label='Close']'',
      ''[aria-label='close']'',
      ''button[aria-label*='Close' i]'',
      ''button[aria-label*='close' i]'',
      ''.close'',
      ''.close-button'',
      ''[class*='close']'',
      ''button[class*='close']'',
      ''.modal-close'',
      ''[data-testid='close']'',
      ''[data-testid='Close']'',
      ''.x-button'',
      ''[title='Close']'',
      ''[title='close']'',
      ''svg[class*='close']'',
      ''button svg'',
      ''button[type='button']:not([data-copy-prompt])'',
      ''button[aria-label*='back' i]'',
      ''button[aria-label*='return' i]'']"

fun try_buttons :: "string \<Rightarrow> nat \<Rightarrow> button list \<Rightarrow> (error + bool) \<times> action list" where
  "try_buttons selector i [] = (Inr False, [])"
| "try_buttons selector i (close_button # bs) =
     (case b_displayed close_button of
        Inl e \<Rightarrow> (Inl e, [])
      | Inr False \<Rightarrow> try_buttons selector (i + 1) bs
      | Inr True \<Rightarrow>
          (case b_enabled close_button of
             Inl e \<Rightarrow> (Inl e, [])
           | Inr False \<Rightarrow> try_buttons selector (i + 1) bs
           | Inr True \<Rightarrow>
               (case b_click close_button of
                  Inr _ \<Rightarrow> (Inr True, [ButtonClick selector i])
                | Inl e \<Rightarrow>
                    (case b_js_click close_button of
                       Inr _ \<Rightarrow> (Inr True, [ButtonClick selector i, ButtonJsClick selector i])
                     | Inl e' \<Rightarrow>
                         (let (r, acts) = try_buttons selector (i + 1) bs
                          in (r, ButtonClick selector i # ButtonJsClick selector i # acts))))))"

fun try_selectors :: "closing \<Rightarrow> string list \<Rightarrow> bool \<times> action list" where
  "try_selectors env [] = (False, [])"
| "try_selectors env (selector # selectors) =
     (case find_close_buttons env selector of
        Inl e \<Rightarrow> try_selectors env selectors
      | Inr close_buttons \<Rightarrow>
          (case try_buttons selector 0 close_buttons of
             (Inr True, acts) \<Rightarrow> (True, acts)
           | (_, acts) \<Rightarrow>
               (let (ok, acts') = try_selectors env selectors
                in (ok, acts @ acts'))))"

definition step_close_buttons :: "closing \<Rightarrow> bool \<times> action list" where
  "step_close_buttons env = try_selectors env close_selectors"

text \<open>
  Step 4 (lines 447-456): the escape key, three times; the step returns true once all
  three calls have returned.
\<close>

fun send_escapes :: "closing \<Rightarrow> nat list \<Rightarrow> bool \<times> action list" where
  "send_escapes env [] = (True, [])"
| "send_escapes env (k # ks) =
     (case send_escape env k of
        Inl e \<Rightarrow> (False, [EscapeKey k])
      | Inr _ \<Rightarrow>
          (let (ok, acts) = send_escapes env ks
           in (ok, EscapeKey k # acts)))"

definition step_escape :: "closing \<Rightarrow> bool \<times> action list" where
  "step_escape env =
     (case escape_body_find env of
        Inl e \<Rightarrow> (False, [])
      | Inr _ \<Rightarrow> send_escapes env [0, 1, 2])"

text \<open>
  Step 5 (lines 459-471): click a displayed overlay or backdrop. A raising
  \<^verbatim>\<open>is_displayed\<close> ends the step, a raising click moves on to the next overlay.
\<close>

fun try_overlays :: "nat \<Rightarrow> overlay list \<Rightarrow> bool \<times> action list" where
  "try_overlays i [] = (False, [])"
| "try_overlays i (ov # ovs) =
     (case o_displayed ov of
        Inl e \<Rightarrow> (False, [])
      | Inr False \<Rightarrow> try_overlays (i + 1) ovs
      | Inr True \<Rightarrow>
          (case o_click ov of
             Inr _ \<Rightarrow> (True, [OverlayClick i])
           | Inl e \<Rightarrow>
               (let (ok, acts) = try_overlays (i + 1) ovs
                in (ok, OverlayClick i # acts))))"

definition step_overlay :: "closing \<Rightarrow> bool \<times> action list" where
  "step_overlay env =
     (case find_overlays env of
        Inl e \<Rightarrow> (False, [])
      | Inr overlays \<Rightarrow> try_overlays 0 overlays)"

text \<open>Step 6 (lines 474-480): one step back in the history.\<close>

definition step_back :: "closing \<Rightarrow> bool \<times> action list" where
  "step_back env =
     (case history_back env of
        Inl e \<Rightarrow> (False, [BrowserBack])
      | Inr _ \<Rightarrow> (True, [BrowserBack]))"

text \<open>
  \<^verbatim>\<open>close_popup\<close> (lines 343-487): each block returns true when it succeeds and falls
  through to the next block when it does not; the last line returns false. Every
  browser call sits in a \<^verbatim>\<open>try\<close> of its block, so none reaches the outer \<^verbatim>\<open>except\<close>. The
  result is paired with everything the routine did to the page.
\<close>

definition close_popup :: "closing \<Rightarrow> bool \<times> action list" where
  "close_popup env =
     (let (ok1, a1) = step_body env in
      if ok1 then (True, a1) else
      let (ok2, a2) = step_positions env in
      if ok2 then (True, a1 @ a2) else
      let (ok3, a3) = step_close_buttons env in
      if ok3 then (True, a1 @ a2 @ a3) else
      let (ok4, a4) = step_escape env in
      if ok4 then (True, a1 @ a2 @ a3 @ a4) else
      let (ok5, a5) = step_overlay env in
      if ok5 then (True, a1 @ a2 @ a3 @ a4 @ a5) else
      let (ok6, a6) = step_back env in
      if ok6 then (True, a1 @ a2 @ a3 @ a4 @ a5 @ a6)
      else (False, a1 @ a2 @ a3 @ a4 @ a5 @ a6))"


definition dismissal_steps :: "closing \<Rightarrow> (bool \<times> action list) list" where
  "dismissal_steps env =
     [step_body env, step_positions env, step_close_buttons env,
      step_escape env, step_overlay env, step_back env]"

subsection \<open>One figure, one listing page\<close>

text \<open>
  The link of a figure answers the three ways of clicking it; a figure answers the lookup
  of its inline video, the lookup of its link and the scroll script, and carries what
  the browser shows and does once the link is clicked: the wait for the modal, and the
  answers to the \<^verbatim>\<open>close_popup\<close> call of the iteration.
\<close>

record link =
  l_click :: "error + unit"
  l_js_click :: "error + unit"
  l_action_click :: "error + unit"

record figure =
  fig_video :: video_lookup
  fig_link :: "error + link"
  fig_scroll :: "error + unit"
  fig_modal :: "error + modal"
  fig_closing :: closing

record item =
  item_video_url :: "string option"
  item_prompt :: "string option"

text \<open>Lines 217-237: regular click, then script click, then action chain.\<close>

definition click_link :: "link \<Rightarrow> bool" where
  "click_link clickable_link =
     (case l_click clickable_link of
        Inr _ \<Rightarrow> True
      | Inl e \<Rightarrow>
          (case l_js_click clickable_link of
             Inr _ \<Rightarrow> True
           | Inl e' \<Rightarrow>
               (case l_action_click clickable_link of
                  Inr _ \<Rightarrow> True
                | Inl e'' \<Rightarrow> False)))"

text \<open>The truth value of an optional string: neither \<^verbatim>\<open>None\<close> nor empty.\<close>

definition nonempty :: "string option \<Rightarrow> bool" where
  "nonempty s = (case s of None \<Rightarrow> False | Some t \<Rightarrow> t \<noteq> [])"

text \<open>
  Lines 252-266: what the iteration appends to \<^verbatim>\<open>videos_data\<close>, given the inline URL
  of the figure and the result of the extraction.
\<close>

definition append_extracted ::
  "string option \<Rightarrow> extracted option \<Rightarrow> item list \<Rightarrow> item list" where
  "append_extracted video_url extracted_data videos_data =
     (case extracted_data of
        None \<Rightarrow> videos_data
      | Some d \<Rightarrow>
          if nonempty (ex_prompt d) \<or> nonempty (ex_video_url d)
          then videos_data @
               [\<lparr>item_video_url =
                    (if nonempty (ex_video_url d) then ex_video_url d else video_url),
                  item_prompt = ex_prompt d\<rparr>]
          else videos_data)"

text \<open>
  The body of the \<^verbatim>\<open>try\<close> of one iteration (lines 189-272). A figure without a link and
  a link that no click reaches end the iteration by \<^verbatim>\<open>continue\<close>; the scroll script is not
  guarded, so its exception leaves the body.
\<close>

definition process_figure :: "figure \<Rightarrow> item list \<Rightarrow> error + item list" where
  "process_figure fig videos_data =
     (let video_url = read_video_src (fig_video fig)
      in case fig_link fig of
           Inl e \<Rightarrow> Inr videos_data
         | Inr clickable_link \<Rightarrow>
             (case fig_scroll fig of
                Inl e \<Rightarrow> Inl e
              | Inr _ \<Rightarrow>
                  if \<not> click_link clickable_link then Inr videos_data
                  else
                    (case extract_prompt_from_popup (fig_modal fig) of
                       Inl e \<Rightarrow> Inl e
                     | Inr extracted_data \<Rightarrow>
                         (let videos_data' = append_extracted video_url extracted_data videos_data;
                              closed = close_popup (fig_closing fig)
                          in Inr videos_data'))))"

text \<open>
  The loop over the figures (lines 187-281) with its \<^verbatim>\<open>except\<close> branch: the popup is
  closed, whatever that call does, and the loop goes on with the next figure.
\<close>

fun scrape_figures :: "figure list \<Rightarrow> item list \<Rightarrow> item list" where
  "scrape_figures [] videos_data = videos_data"
| "scrape_figures (fig # figs) videos_data =
     (case process_figure fig videos_data of
        Inl e \<Rightarrow> (let closed = close_popup (fig_closing fig) in scrape_figures figs videos_data)
      | Inr videos_data' \<Rightarrow> scrape_figures figs videos_data')"

text \<open>
  The listing page: the driver set-up, the navigation with the wait for the body
  (lines 117-152), the five-second wait for an element matching the primary selector,
  and what the primary and the looser selector find.
\<close>

record page =
  setup_driver :: "error + unit"
  navigate :: "error + unit"
  wait_primary :: "error + unit"
  find_primary :: "error + figure list"
  find_fallback :: "error + figure list"

text \<open>
  Lines 161-175, the body of the \<^verbatim>\<open>try\<close> that locates the figures; an empty result is
  the \<^verbatim>\<open>return []\<close> of line 173.
\<close>

definition locate_figures :: "page \<Rightarrow> error + figure list" where
  "locate_figures pg =
     (case wait_primary pg of
        Inl e \<Rightarrow> Inl e
      | Inr _ \<Rightarrow>
          (case find_primary pg of
             Inl e \<Rightarrow> Inl e
           | Inr figures \<Rightarrow>
               (case figures of [] \<Rightarrow> find_fallback pg | _ \<Rightarrow> Inr figures)))"

text \<open>
  \<^verbatim>\<open>scrape_single_subcategory\<close> (lines 107-290): the body of the outer \<^verbatim>\<open>try\<close>, then the
  function with its \<^verbatim>\<open>except Exception: return []\<close>.
\<close>

definition scrape_body :: "page \<Rightarrow> error + item list" where
  "scrape_body pg =
     (case setup_driver pg of
        Inl e \<Rightarrow> Inl e
      | Inr _ \<Rightarrow>
          (case navigate pg of
             Inl nav_error \<Rightarrow> Inl nav_error
           | Inr _ \<Rightarrow>
               (case locate_figures pg of
                  Inl e \<Rightarrow> Inr []
                | Inr figures \<Rightarrow>
                    (case figures of
                       [] \<Rightarrow> Inr []
                     | _ \<Rightarrow> Inr (scrape_figures figures [])))))"

definition scrape_single_subcategory :: "page \<Rightarrow> error + item list" where
  "scrape_single_subcategory pg =
     (case scrape_body pg of
        Inl e \<Rightarrow> Inr []
      | Inr videos_data \<Rightarrow> Inr videos_data)"

text \<open>
  What one figure contributes to the result: the items its iteration appends, none when
  the iteration raises.
\<close>

definition figure_items :: "figure \<Rightarrow> item list" where
  "figure_items fig = (case process_figure fig [] of Inl e \<Rightarrow> [] | Inr items \<Rightarrow> items)"

text \<open>
  A listing page that loads and does not change while it is searched, given by the
  figures its primary selector and its looser selector match. \<^verbatim>\<open>WebDriverWait.until\<close>
  polls \<^verbatim>\<open>presence_of_element_located\<close> and raises \<^verbatim>\<open>TimeoutException\<close> when no poll finds
  an element, which on such a page is when the primary selector matches nothing.
\<close>

definition static_page :: "figure list \<Rightarrow> figure list \<Rightarrow> page" where
  "static_page primary looser =
     \<lparr>setup_driver = Inr (),
      navigate = Inr (),
      wait_primary = (case primary of [] \<Rightarrow> Inl TimeoutException | _ \<Rightarrow> Inr ()),
      find_primary = Inr primary,
      find_fallback = Inr looser\<rparr>"

section \<open>Concrete inputs\<close>

text \<open>
  One record file with one record, and three servers: one that serves every request, one
  that refuses the first request and serves the later ones, one whose stream breaks
  after the first chunk.
\<close>

definition example_json_file :: string where
  "example_json_file = ''c/s/videos.json''"

definition example_record :: json where
  "example_record = JDict [(''video_url'', JStr ''https://x/a.mp4''), (''prompt'', JStr ''p'')]"

definition example_world :: world where
  "example_world =
     \<lparr>files = [example_json_file \<mapsto> Document (JList [example_record])], events = []\<rparr>"

definition serving_network :: network where
  "serving_network history url = Stream [''vid'', ''eo''] True"


definition breaking_network :: network where
  "breaking_network history url = Stream [''vid''] False"

definition enriched_example_record :: json where
  "enriched_example_record =
     JDict [(''video_url'', JStr ''https://x/a.mp4''), (''prompt'', JStr ''p''),
            (''local_file_path'', JStr ''c/s/videos/a.mp4''), (''filename'', JStr ''a.mp4'')]"

text \<open>
  Browsers for \<^verbatim>\<open>close_popup\<close>: one where every call raises, one where the body can be
  clicked, one where only the escape keys go through. A modal with a video and a copy
  button, and one with nothing in it. A figure with an inline preview whose link opens
  the modal, and variations of it; a page with three figures.
\<close>

definition failing_closing :: closing where
  "failing_closing =
     \<lparr>body_find = Inl NoSuchElementException,
      body_click = Inl WebDriverException,
      window_size = Inl WebDriverException,
      pointer_click = (\<lambda>offset. Inl WebDriverException),
      find_close_buttons = (\<lambda>selector. Inl WebDriverException),
      escape_body_find = Inl NoSuchElementException,
      send_escape = (\<lambda>k. Inl WebDriverException),
      find_overlays = Inl WebDriverException,
      history_back = Inl WebDriverException\<rparr>"

definition body_closing :: closing where
  "body_closing = failing_closing\<lparr>body_find := Inr (), body_click := Inr ()\<rparr>"


definition example_modal :: modal where
  "example_modal =
     \<lparr>modal_video = Inr (Inr (Some ''https://cdn/full.mp4'')),
      modal_copy_button = Inr \<lparr>cb_text = Inr '' a cat '', cb_neighbour = Inl NoSuchElementException\<rparr>,
      modal_prompt_element = Inl NoSuchElementException\<rparr>"

definition bare_modal :: modal where
  "bare_modal =
     \<lparr>modal_video = Inl NoSuchElementException,
      modal_copy_button = Inl NoSuchElementException,
      modal_prompt_element = Inl NoSuchElementException\<rparr>"

definition example_link :: link where
  "example_link =
     \<lparr>l_click = Inl WebDriverException, l_js_click = Inr (), l_action_click = Inl WebDriverException\<rparr>"

definition example_figure :: figure where
  "example_figure =
     \<lparr>fig_video = Inr (Inr (Some ''https://cdn/preview.mp4'')),
      fig_link = Inr example_link,
      fig_scroll = Inr (),
      fig_modal = Inr example_modal,
      fig_closing = body_closing\<rparr>"

definition linkless_figure :: figure where
  "linkless_figure = example_figure\<lparr>fig_link := Inl NoSuchElementException\<rparr>"

definition empty_src_figure :: figure where
  "empty_src_figure =
     example_figure\<lparr>fig_modal := Inr (example_modal\<lparr>modal_video := Inr (Inr (Some ''''))\<rparr>)\<rparr>"

definition scroll_failing_figure :: figure where
  "scroll_failing_figure = example_figure\<lparr>fig_scroll := Inl WebDriverException\<rparr>"

definition example_item :: item where
  "example_item = \<lparr>item_video_url = Some ''https://cdn/full.mp4'', item_prompt = Some ''a cat''\<rparr>"

definition example_page :: page where
  "example_page = static_page [example_figure, linkless_figure, example_figure] []"

definition unreachable_page :: page where
  "unreachable_page = example_page\<lparr>navigate := Inl TimeoutException\<rparr>"

definition bare_figure :: figure where
  "bare_figure = example_figure\<lparr>fig_modal := Inr bare_modal\<rparr>"

definition preview_item :: item where
  "preview_item =
     \<lparr>item_video_url = Some ''https://cdn/preview.mp4'', item_prompt = Some ''a cat''\<rparr>"

section \<open>Properties of the downloader\<close>

subsection \<open>The log and the file system\<close>

lemma files_log_event [simp]: "files (log_event e w) = files w"
  by (simp add: log_event_def)

lemma requests_log_event [simp]: "requests (log_event e w) = requests w @ requested e"
  by (simp add: log_event_def requests_def)

lemma failed_log_event [simp]:
  "failed_fetches (log_event e w) = failed_fetches w + (if is_failed e then 1 else 0)"
  by (simp add: log_event_def failed_fetches_def)

lemma requests_files_update [simp]: "requests (w\<lparr>files := f\<rparr>) = requests w"
  by (simp add: requests_def)

lemma failed_files_update [simp]: "failed_fetches (w\<lparr>files := f\<rparr>) = failed_fetches w"
  by (simp add: failed_fetches_def)



lemma download_video_partial:
  assumes "net (requests w) u = Stream chunks False"
  shows "download_video net u p w =
           (False, log_event (FailedToDownload u)
              ((log_event (Downloading u) w)\<lparr>files := (files w)(p \<mapsto> Bytes (write_chunks chunks))\<rparr>))"
  using assms by (simp add: download_video_def Let_def)




lemma map_of_enrich:
  "map_of (enrich p f kvs) = (map_of kvs)(''local_file_path'' \<mapsto> JStr p, ''filename'' \<mapsto> JStr f)"
  by (simp add: enrich_def update_conv')

lemma dict_get_enrich_url [simp]:
  "dict_get (enrich p f kvs) ''video_url'' d = dict_get kvs ''video_url'' d"
  by (simp add: dict_get_def map_of_enrich)

lemma enrich_enrich [simp]: "enrich p f (enrich p f kvs) = enrich p f kvs"
proof -
  have "AList.update ''local_file_path'' (JStr p) (enrich p f kvs) = enrich p f kvs"
    by (rule update_triv) (simp add: map_of_enrich)
  then show ?thesis by (simp add: enrich_def)
qed

lemma process_video_existing:
  assumes "dict_get kvs ''video_url'' (JStr []) = JStr u" and "u \<noteq> []"
    and "derive_filename u = Inr fn" and "files w (path_join vf fn) \<noteq> None"
  shows "process_video net vf i (JDict kvs) w =
           (JDict (enrich (path_join vf fn) fn kvs), log_event (SkippingExisting fn) w)"
  using assms by (auto simp: process_video_def Let_def)





lemma updated_json_data_twice [simp]:
  "updated_json_data (updated_json_data d vs') vs' = updated_json_data d vs'"
  by (cases d) (simp_all add: updated_json_data_def)

lemma derive_example: "derive_filename ''https://x/a.mp4'' = Inr ''a.mp4''"
  by (simp add: derive_filename_def get_file_extension_def video_id_of_def basename_def endswith_def
      urlparse_path_def clean_url_def split_scheme_def split_netloc_def
      is_ascii_alpha_def scheme_chars_def to_lower_def uses_params_def)

lemma example_folder: "path_join (dirname example_json_file) ''videos'' = ''c/s/videos''"
  by (simp add: example_json_file_def dirname_def path_join_def endswith_def)


subsection \<open>Existing targets and a second run\<close>




lemmas run_defs =
  process_json_file_def videos_of_def process_video_def dict_get_def Let_def path_join_def
  endswith_def dirname_def download_video_def log_event_def basename_def write_chunks_def
  updated_json_data_def enrich_def requests_def failed_fetches_def example_json_file_def
  example_world_def example_record_def




lemma breaking_first_run:
  "process_json_file breaking_network example_json_file example_world =
     \<lparr>files = [example_json_file \<mapsto> Document (JList [example_record]),
               ''c/s/videos/a.mp4'' \<mapsto> Bytes ''vid''],
      events = [Downloading ''https://x/a.mp4'', FailedToDownload ''https://x/a.mp4'',
                UpdatedFile example_json_file]\<rparr>"
  by (simp add: run_defs derive_example breaking_network_def fun_upd_twist)

lemma breaking_second_run:
  "process_json_file net example_json_file
     \<lparr>files = [example_json_file \<mapsto> Document (JList [example_record]),
               ''c/s/videos/a.mp4'' \<mapsto> Bytes ''vid''],
      events = [Downloading ''https://x/a.mp4'', FailedToDownload ''https://x/a.mp4'',
                UpdatedFile example_json_file]\<rparr> =
     \<lparr>files = [example_json_file \<mapsto> Document (JList [enriched_example_record]),
               ''c/s/videos/a.mp4'' \<mapsto> Bytes ''vid''],
      events = [Downloading ''https://x/a.mp4'', FailedToDownload ''https://x/a.mp4'',
                UpdatedFile example_json_file,
                SkippingExisting ''a.mp4'', UpdatedFile example_json_file]\<rparr>"
  by (simp add: run_defs derive_example enriched_example_record_def fun_upd_twist)




subsection \<open>File names\<close>

lemma urlparse_path_example: "urlparse_path ''https://x/a.mp4'' = Inr ''/a.mp4''"
  by (simp add: urlparse_path_def clean_url_def split_scheme_def split_netloc_def
      is_ascii_alpha_def scheme_chars_def to_lower_def uses_params_def)










subsection \<open>A stream that breaks\<close>

lemma process_video_broken:
  assumes "dict_get kvs ''video_url'' (JStr []) = JStr u" and "u \<noteq> []"
    and "derive_filename u = Inr fn" and "files w (path_join vf fn) = None"
    and "net (requests w) u = Stream chunks False"
  shows "process_video net vf i (JDict kvs) w =
           (JDict kvs,
            log_event (FailedToDownload u)
              ((log_event (Downloading u) w)
                 \<lparr>files := (files w)(path_join vf fn \<mapsto> Bytes (write_chunks chunks))\<rparr>))"
  using assms by (simp add: process_video_def Let_def download_video_partial)

text \<open>
  Claim C9. Take a record file with one record whose target is not on disk, and a server
  whose stream for the record's URL raises after some chunks. Then \<^verbatim>\<open>download_video\<close>
  returns false and yet the target file exists, holding the chunks written so far; the
  run writes the record back without the path fields. A second run, whatever the server
  does then, finds the file, adds \<^verbatim>\<open>local_file_path\<close> and \<^verbatim>\<open>filename\<close> to the record and
  requests nothing; the file still holds the partial content.
\<close>

theorem partial_download_then_backfill:
  assumes doc: "files w jf = Some (Document (JList [JDict kvs]))"
    and url: "dict_get kvs ''video_url'' (JStr []) = JStr u" and ne: "u \<noteq> []"
    and fn: "derive_filename u = Inr fn"
    and sp: "sp = path_join (path_join (dirname jf) ''videos'') fn"
    and absent: "files w sp = None"
    and broken: "net (requests w) u = Stream chunks False"
  shows "fst (download_video net u sp w) = False \<and>
         files (snd (download_video net u sp w)) sp = Some (Bytes (write_chunks chunks)) \<and>
         files (process_json_file net jf w) sp = Some (Bytes (write_chunks chunks)) \<and>
         files (process_json_file net jf w) jf = Some (Document (JList [JDict kvs])) \<and>
         requests (process_json_file net jf w) = requests w @ [u] \<and>
         files (process_json_file net2 jf (process_json_file net jf w)) jf =
           Some (Document (JList [JDict (enrich sp fn kvs)])) \<and>
         files (process_json_file net2 jf (process_json_file net jf w)) sp =
           Some (Bytes (write_chunks chunks)) \<and>
         requests (process_json_file net2 jf (process_json_file net jf w)) =
           requests (process_json_file net jf w)"
proof -
  define vf where "vf = path_join (dirname jf) ''videos''"
  define w1 where "w1 = log_event (FailedToDownload u)
              ((log_event (Downloading u) w)\<lparr>files := (files w)(sp \<mapsto> Bytes (write_chunks chunks))\<rparr>)"
  define wa where "wa = log_event (UpdatedFile jf)
              (w1\<lparr>files := (files w1)(jf \<mapsto> Document (JList [JDict kvs]))\<rparr>)"
  have neq: "sp \<noteq> jf" using doc absent by auto
  have dv: "download_video net u sp w = (False, w1)"
    unfolding w1_def using broken by (rule download_video_partial)
  have pv: "process_video net vf 0 (JDict kvs) w = (JDict kvs, w1)"
    unfolding w1_def sp vf_def
    by (rule process_video_broken) (use url ne fn absent broken in \<open>simp_all add: sp\<close>)
  have first: "process_json_file net jf w = wa"
    using doc pv by (simp add: process_json_file_def videos_of_def updated_json_data_def
        vf_def wa_def)
  have wa_sp: "files wa sp = Some (Bytes (write_chunks chunks))"
    using neq by (simp add: wa_def w1_def)
  have wa_jf: "files wa jf = Some (Document (JList [JDict kvs]))"
    by (simp add: wa_def)
  have pv2: "process_video net2 vf 0 (JDict kvs) wa =
               (JDict (enrich sp fn kvs), log_event (SkippingExisting fn) wa)"
    unfolding sp vf_def
    by (rule process_video_existing) (use url ne fn wa_sp in \<open>simp_all add: sp vf_def\<close>)
  have second: "process_json_file net2 jf wa =
      log_event (UpdatedFile jf)
        ((log_event (SkippingExisting fn) wa)
           \<lparr>files := (files wa)(jf \<mapsto> Document (JList [JDict (enrich sp fn kvs)]))\<rparr>)"
    using wa_jf pv2 by (simp add: process_json_file_def videos_of_def updated_json_data_def vf_def)
  show ?thesis
    unfolding first second using dv wa_sp wa_jf neq
    by (simp add: wa_def w1_def)
qed

theorem partial_download_then_backfill_witness:
  "files example_world example_json_file = Some (Document (JList [example_record])) \<and>
   derive_filename ''https://x/a.mp4'' = Inr ''a.mp4'' \<and>
   files example_world ''c/s/videos/a.mp4'' = None \<and>
   breaking_network (requests example_world) ''https://x/a.mp4'' = Stream [''vid''] False \<and>
   fst (download_video breaking_network ''https://x/a.mp4'' ''c/s/videos/a.mp4'' example_world) = False \<and>
   files (process_json_file breaking_network example_json_file example_world) ''c/s/videos/a.mp4'' =
     Some (Bytes ''vid'') \<and>
   files (process_json_file breaking_network example_json_file example_world) example_json_file =
     Some (Document (JList [example_record])) \<and>
   files (process_json_file serving_network example_json_file
           (process_json_file breaking_network example_json_file example_world)) example_json_file =
     Some (Document (JList [enriched_example_record])) \<and>
   requests (process_json_file serving_network example_json_file
           (process_json_file breaking_network example_json_file example_world)) =
     [''https://x/a.mp4'']"
proof -
  have a: "files example_world example_json_file =
      Some (Document (JList [JDict [(''video_url'', JStr ''https://x/a.mp4''), (''prompt'', JStr ''p'')]]))"
    by (simp add: example_world_def example_record_def)
  have b: "dict_get [(''video_url'', JStr ''https://x/a.mp4''), (''prompt'', JStr ''p'')]
      ''video_url'' (JStr []) = JStr ''https://x/a.mp4''"
    by (simp add: dict_get_def)
  have c: "''c/s/videos/a.mp4'' = path_join (path_join (dirname example_json_file) ''videos'') ''a.mp4''"
    by (simp add: example_folder) (simp add: path_join_def endswith_def)
  have d: "files example_world ''c/s/videos/a.mp4'' = None"
    by (simp add: example_world_def example_json_file_def)
  have e: "breaking_network (requests example_world) ''https://x/a.mp4'' = Stream [''vid''] False"
    by (simp add: breaking_network_def)
  have f: "requests example_world = []"
    by (simp add: requests_def example_world_def)
  have g: "''https://x/a.mp4'' \<noteq> []"
    by simp
  from partial_download_then_backfill
         [where w = example_world and jf = example_json_file
            and kvs = "[(''video_url'', JStr ''https://x/a.mp4''), (''prompt'', JStr ''p'')]"
            and u = "''https://x/a.mp4''" and fn = "''a.mp4''" and sp = "''c/s/videos/a.mp4''"
            and net = breaking_network and chunks = "[''vid'']" and ?net2.0 = serving_network,
          OF a b g derive_example c d e]
       f a d e
  show ?thesis
    by (simp add: derive_example write_chunks_def enrich_def example_record_def
        enriched_example_record_def)
qed

subsection \<open>What the rewrite leaves alone\<close>









section \<open>Properties of the scraper\<close>

subsection \<open>Reading the popup\<close>

text \<open>
  Claim C7. \<^verbatim>\<open>extract_prompt_from_popup\<close> never raises. It returns \<^verbatim>\<open>None\<close> exactly when the
  wait for the modal raises (the time-out when no modal appears); once the modal is
  there it returns a record of \<^verbatim>\<open>video_url\<close> and \<^verbatim>\<open>prompt\<close>, each possibly \<^verbatim>\<open>None\<close>. A
  missing video element gives \<^verbatim>\<open>video_url = None\<close>, and a missing copy button together
  with a missing generic prompt element gives \<^verbatim>\<open>prompt = None\<close>.
\<close>

theorem popup_extraction_result:
  "(\<forall>e. extract_prompt_from_popup wait_modal \<noteq> Inl e) \<and>
   (extract_prompt_from_popup wait_modal = Inr None \<longleftrightarrow> (\<exists>e. wait_modal = Inl e)) \<and>
   (wait_modal = Inr m \<longrightarrow>
      extract_prompt_from_popup wait_modal =
        Inr (Some \<lparr>ex_video_url = read_video_src (modal_video m), ex_prompt = extract_prompt m\<rparr>)) \<and>
   (modal_video m = Inl e1 \<longrightarrow> read_video_src (modal_video m) = None) \<and>
   (modal_copy_button m = Inl e2 \<and> modal_prompt_element m = Inl e3 \<longrightarrow> extract_prompt m = None)"
  by (cases wait_modal)
    (auto simp: extract_prompt_from_popup_def extract_body_def read_video_src_def
       extract_prompt_def fallback_prompt_def)

theorem popup_extraction_result_witness:
  "modal_video bare_modal = Inl NoSuchElementException \<and>
   modal_copy_button bare_modal = Inl NoSuchElementException \<and>
   modal_prompt_element bare_modal = Inl NoSuchElementException \<and>
   extract_prompt_from_popup (Inr bare_modal) =
     Inr (Some \<lparr>ex_video_url = None, ex_prompt = None\<rparr>) \<and>
   extract_prompt_from_popup (Inl TimeoutException) = Inr None"
proof -
  have a: "modal_video bare_modal = Inl NoSuchElementException"
    and b: "modal_copy_button bare_modal = Inl NoSuchElementException"
    and c: "modal_prompt_element bare_modal = Inl NoSuchElementException"
    by (simp_all add: bare_modal_def)
  from popup_extraction_result
         [where wait_modal = "Inr bare_modal" and m = bare_modal
            and ?e1.0 = NoSuchElementException and ?e2.0 = NoSuchElementException
            and ?e3.0 = NoSuchElementException]
       popup_extraction_result [where wait_modal = "Inl TimeoutException"]
       a b c
  show ?thesis by simp
qed

subsection \<open>Closing the popup\<close>







lemma length_dismissal_steps [simp]: "length (dismissal_steps env) = 6"
  by (simp add: dismissal_steps_def)












subsection \<open>The loop over the figures\<close>

lemma append_extracted_acc:
  "append_extracted v d acc = acc @ append_extracted v d []"
  by (simp add: append_extracted_def split: option.splits)

lemma process_figure_acc:
  "process_figure fig acc =
     (case process_figure fig [] of Inl e \<Rightarrow> Inl e | Inr items \<Rightarrow> Inr (acc @ items))"
  by (simp add: process_figure_def Let_def append_extracted_acc[of _ _ acc]
      split: sum.splits)

lemma scrape_figures_concat:
  "scrape_figures figs acc = acc @ concat (map figure_items figs)"
proof (induction figs arbitrary: acc)
  case Nil
  then show ?case by simp
next
  case (Cons fig figs)
  show ?case
    by (cases "process_figure fig []")
      (simp_all add: Cons.IH process_figure_acc[of fig acc] figure_items_def)
qed

lemma extract_never_raises: "extract_prompt_from_popup wm \<noteq> Inl e"
  by (simp add: extract_prompt_from_popup_def split: sum.splits)

lemma figure_items_skipped:
  "fig_link fig = Inl e \<Longrightarrow> figure_items fig = []"
  "fig_scroll fig = Inl e \<Longrightarrow> figure_items fig = []"
  "fig_link fig = Inr l \<Longrightarrow> \<not> click_link l \<Longrightarrow> figure_items fig = []"
  by (simp_all add: figure_items_def process_figure_def split: sum.splits)

lemma scrape_result:
  "scrape_single_subcategory pg = Inr [] \<or>
   (\<exists>figures. figures \<noteq> [] \<and> locate_figures pg = Inr figures \<and>
      scrape_single_subcategory pg = Inr (scrape_figures figures []))"
  by (auto simp: scrape_single_subcategory_def scrape_body_def split: sum.splits list.splits)

text \<open>
  Claim C3. \<^verbatim>\<open>scrape_single_subcategory\<close> always returns a list. It is empty when the
  driver set-up, the navigation, the wait for a figure or a figure lookup raises.
  Otherwise the result is the concatenation, in page order, of what each figure
  contributes on its own: a figure without a link, or one whose iteration raises,
  contributes nothing, and the figures before and after it contribute what they
  contribute without it.
\<close>

theorem scrape_never_raises:
  "(\<exists>items. scrape_single_subcategory pg = Inr items) \<and>
   (setup_driver pg = Inl e \<or> navigate pg = Inl e \<or> wait_primary pg = Inl e \<or>
    find_primary pg = Inl e \<or> locate_figures pg = Inl e \<longrightarrow>
      scrape_single_subcategory pg = Inr []) \<and>
   (setup_driver pg = Inr () \<and> navigate pg = Inr () \<and> locate_figures pg = Inr figures \<longrightarrow>
      scrape_single_subcategory pg = Inr (concat (map figure_items figures))) \<and>
   scrape_figures figs videos_data = videos_data @ concat (map figure_items figs) \<and>
   (fig_link fig = Inl e1 \<or> process_figure fig videos_data = Inl e1 \<longrightarrow>
      figure_items fig = [] \<and>
      scrape_figures (before @ fig # after) [] =
        scrape_figures before [] @ scrape_figures after [])"
proof (intro conjI impI)
  show "\<exists>items. scrape_single_subcategory pg = Inr items"
    by (simp add: scrape_single_subcategory_def split: sum.splits)
next
  assume "setup_driver pg = Inl e \<or> navigate pg = Inl e \<or> wait_primary pg = Inl e \<or>
    find_primary pg = Inl e \<or> locate_figures pg = Inl e"
  then show "scrape_single_subcategory pg = Inr []"
    by (auto simp: scrape_single_subcategory_def scrape_body_def locate_figures_def
        split: sum.splits list.splits)
next
  assume "setup_driver pg = Inr () \<and> navigate pg = Inr () \<and> locate_figures pg = Inr figures"
  then show "scrape_single_subcategory pg = Inr (concat (map figure_items figures))"
    by (cases figures)
      (auto simp: scrape_single_subcategory_def scrape_body_def scrape_figures_concat
        split: sum.splits)
next
  show "scrape_figures figs videos_data = videos_data @ concat (map figure_items figs)"
    by (rule scrape_figures_concat)
next
  assume h: "fig_link fig = Inl e1 \<or> process_figure fig videos_data = Inl e1"
  then show none: "figure_items fig = []"
  proof
    assume "fig_link fig = Inl e1"
    then show ?thesis by (rule figure_items_skipped(1))
  next
    assume "process_figure fig videos_data = Inl e1"
    then show ?thesis
      by (simp add: figure_items_def process_figure_acc[of fig videos_data] split: sum.splits)
  qed
  then show "scrape_figures (before @ fig # after) [] =
        scrape_figures before [] @ scrape_figures after []"
    by (simp add: scrape_figures_concat)
qed


lemmas figure_defs =
  figure_items_def process_figure_def read_video_src_def click_link_def
  extract_prompt_from_popup_def extract_body_def extract_prompt_def prompt_of_copy_button_def
  fallback_prompt_def append_extracted_def nonempty_def strip_def is_space_def Let_def
  example_figure_def example_modal_def example_link_def linkless_figure_def
  empty_src_figure_def scroll_failing_figure_def example_item_def bare_figure_def
  bare_modal_def preview_item_def

lemma example_figure_items: "figure_items example_figure = [example_item]"
  by (simp add: figure_defs)

lemma linkless_figure_items: "figure_items linkless_figure = []"
  by (simp add: figure_defs)

theorem scrape_never_raises_witness:
  "navigate unreachable_page = Inl TimeoutException \<and>
   scrape_single_subcategory unreachable_page = Inr [] \<and>
   setup_driver example_page = Inr () \<and> navigate example_page = Inr () \<and>
   locate_figures example_page = Inr [example_figure, linkless_figure, example_figure] \<and>
   scrape_single_subcategory example_page = Inr [example_item, example_item] \<and>
   fig_link linkless_figure = Inl NoSuchElementException \<and>
   scrape_figures ([example_figure] @ linkless_figure # [example_figure]) [] =
     scrape_figures [example_figure] [] @ scrape_figures [example_figure] [] \<and>
   process_figure scroll_failing_figure [] = Inl WebDriverException \<and>
   scrape_figures ([example_figure] @ scroll_failing_figure # [example_figure]) [] =
     scrape_figures [example_figure] [] @ scrape_figures [example_figure] []"
proof -
  have a: "navigate unreachable_page = Inl TimeoutException"
    by (simp add: unreachable_page_def)
  have b: "setup_driver example_page = Inr () \<and> navigate example_page = Inr () \<and>
           locate_figures example_page = Inr [example_figure, linkless_figure, example_figure]"
    by (simp add: example_page_def static_page_def locate_figures_def)
  have c: "fig_link linkless_figure = Inl NoSuchElementException"
    by (simp add: linkless_figure_def)
  have d: "process_figure scroll_failing_figure [] = Inl WebDriverException"
    by (simp add: figure_defs)
  from scrape_never_raises [where pg = unreachable_page and e = TimeoutException] a
  have 1: "scrape_single_subcategory unreachable_page = Inr []"
    by blast
  from scrape_never_raises
         [where pg = example_page and figures = "[example_figure, linkless_figure, example_figure]"] b
  have "scrape_single_subcategory example_page =
          Inr (concat (map figure_items [example_figure, linkless_figure, example_figure]))"
    by blast
  then have 2: "scrape_single_subcategory example_page = Inr [example_item, example_item]"
    by (simp add: example_figure_items linkless_figure_items)
  from scrape_never_raises
         [where fig = linkless_figure and ?e1.0 = NoSuchElementException
            and before = "[example_figure]" and after = "[example_figure]"] c
  have 3: "scrape_figures ([example_figure] @ linkless_figure # [example_figure]) [] =
     scrape_figures [example_figure] [] @ scrape_figures [example_figure] []"
    by blast
  from scrape_never_raises
         [where fig = scroll_failing_figure and ?e1.0 = WebDriverException and videos_data = "[]"
            and before = "[example_figure]" and after = "[example_figure]"] d
  have 4: "scrape_figures ([example_figure] @ scroll_failing_figure # [example_figure]) [] =
     scrape_figures [example_figure] [] @ scrape_figures [example_figure] []"
    by blast
  from a b c d 1 2 3 4 show ?thesis
    by blast
qed

lemma append_extracted_items:
  "it \<in> set (append_extracted v d []) \<Longrightarrow> item_video_url it \<noteq> None \<or> item_prompt it \<noteq> None"
  by (auto simp: append_extracted_def nonempty_def split: option.splits if_splits)

lemma figure_items_filled:
  "it \<in> set (figure_items fig) \<Longrightarrow> item_video_url it \<noteq> None \<or> item_prompt it \<noteq> None"
  by (auto simp: figure_items_def process_figure_def Let_def
      split: sum.splits if_splits dest: append_extracted_items)

lemma figure_items_nothing_extracted:
  "extract_prompt_from_popup (fig_modal fig) = Inr None \<or>
   extract_prompt_from_popup (fig_modal fig) = Inr (Some \<lparr>ex_video_url = None, ex_prompt = None\<rparr>)
   \<Longrightarrow> figure_items fig = []"
  by (auto simp: figure_items_def process_figure_def Let_def append_extracted_def nonempty_def
      split: sum.splits)

text \<open>
  Claim C4. Every item of the returned list has a \<^verbatim>\<open>video_url\<close> or a \<^verbatim>\<open>prompt\<close> that is
  not \<^verbatim>\<open>None\<close>. Nothing is appended when the extraction returned \<^verbatim>\<open>None\<close> or a record
  with both fields \<^verbatim>\<open>None\<close>: such a figure contributes no item, and the other figures
  contribute theirs.
\<close>

theorem scraped_items_have_a_field:
  "(scrape_single_subcategory pg = Inr items \<longrightarrow>
      (\<forall>it\<in>set items. item_video_url it \<noteq> None \<or> item_prompt it \<noteq> None)) \<and>
   append_extracted preview None videos_data = videos_data \<and>
   append_extracted preview (Some \<lparr>ex_video_url = None, ex_prompt = None\<rparr>) videos_data =
     videos_data \<and>
   (extract_prompt_from_popup (fig_modal fig) = Inr None \<or>
    extract_prompt_from_popup (fig_modal fig) =
      Inr (Some \<lparr>ex_video_url = None, ex_prompt = None\<rparr>) \<longrightarrow>
      figure_items fig = [] \<and>
      scrape_figures (before @ fig # after) [] =
        scrape_figures before [] @ scrape_figures after [])"
proof (intro conjI impI)
  assume r: "scrape_single_subcategory pg = Inr items"
  show "\<forall>it\<in>set items. item_video_url it \<noteq> None \<or> item_prompt it \<noteq> None"
  proof
    fix it assume it: "it \<in> set items"
    from scrape_result[of pg] r it
    obtain figures where "items = scrape_figures figures []"
      by auto
    with it obtain fig where "it \<in> set (figure_items fig)"
      by (auto simp: scrape_figures_concat)
    then show "item_video_url it \<noteq> None \<or> item_prompt it \<noteq> None"
      by (rule figure_items_filled)
  qed
next
  show "append_extracted preview None videos_data = videos_data"
    by (simp add: append_extracted_def)
next
  show "append_extracted preview (Some \<lparr>ex_video_url = None, ex_prompt = None\<rparr>) videos_data =
     videos_data"
    by (simp add: append_extracted_def nonempty_def)
next
  assume h: "extract_prompt_from_popup (fig_modal fig) = Inr None \<or>
    extract_prompt_from_popup (fig_modal fig) =
      Inr (Some \<lparr>ex_video_url = None, ex_prompt = None\<rparr>)"
  then show none: "figure_items fig = []"
    by (rule figure_items_nothing_extracted)
  then show "scrape_figures (before @ fig # after) [] =
        scrape_figures before [] @ scrape_figures after []"
    by (simp add: scrape_figures_concat)
qed


theorem scraped_items_have_a_field_witness:
  "scrape_single_subcategory example_page = Inr [example_item, example_item] \<and>
   list_all (\<lambda>it. item_video_url it \<noteq> None \<or> item_prompt it \<noteq> None)
     [example_item, example_item] \<and>
   extract_prompt_from_popup (fig_modal bare_figure) =
     Inr (Some \<lparr>ex_video_url = None, ex_prompt = None\<rparr>) \<and>
   figure_items bare_figure = [] \<and>
   scrape_figures ([example_figure] @ bare_figure # [example_figure]) [] =
     scrape_figures [example_figure] [] @ scrape_figures [example_figure] []"
proof -
  have a: "scrape_single_subcategory example_page = Inr [example_item, example_item]"
    by (simp add: scrape_single_subcategory_def scrape_body_def example_page_def static_page_def
        locate_figures_def scrape_figures_concat example_figure_items linkless_figure_items)
  have b: "extract_prompt_from_popup (fig_modal bare_figure) =
     Inr (Some \<lparr>ex_video_url = None, ex_prompt = None\<rparr>)"
    by (simp add: figure_defs)
  from scraped_items_have_a_field
         [where pg = example_page and items = "[example_item, example_item]"] a
  have 1: "list_all (\<lambda>it. item_video_url it \<noteq> None \<or> item_prompt it \<noteq> None)
     [example_item, example_item]"
    unfolding list_all_iff by blast
  from scraped_items_have_a_field
         [where fig = bare_figure and before = "[example_figure]" and after = "[example_figure]"] b
  have 2: "figure_items bare_figure = [] \<and>
      scrape_figures ([example_figure] @ bare_figure # [example_figure]) [] =
        scrape_figures [example_figure] [] @ scrape_figures [example_figure] []"
    by blast
  from a b 1 2 show ?thesis
    by blast
qed

subsection \<open>Which URL the record carries\<close>

text \<open>
  Claim C5, as the code has it. When the overlay gives a URL that is neither \<^verbatim>\<open>None\<close>
  nor the empty string, the appended record carries that URL, whatever the inline
  preview URL of the figure is: a figure with both contributes no item or one item with
  the overlay URL, and the latter when its link is found and clicked and the scroll
  succeeds.
\<close>

theorem overlay_url_wins_when_not_empty:
  "(ex_video_url d = Some overlay_url \<and> overlay_url \<noteq> [] \<longrightarrow>
      append_extracted preview (Some d) videos_data =
        videos_data @ [\<lparr>item_video_url = Some overlay_url, item_prompt = ex_prompt d\<rparr>]) \<and>
   (read_video_src (fig_video fig) = Some preview_url \<and>
    extract_prompt_from_popup (fig_modal fig) = Inr (Some x) \<and>
    ex_video_url x = Some url \<and> url \<noteq> [] \<longrightarrow>
      figure_items fig = [] \<or>
      figure_items fig = [\<lparr>item_video_url = Some url, item_prompt = ex_prompt x\<rparr>]) \<and>
   (read_video_src (fig_video fig) = Some preview_url \<and>
    extract_prompt_from_popup (fig_modal fig) = Inr (Some x) \<and>
    ex_video_url x = Some url \<and> url \<noteq> [] \<and>
    fig_link fig = Inr l \<and> click_link l \<and> fig_scroll fig = Inr () \<longrightarrow>
      figure_items fig = [\<lparr>item_video_url = Some url, item_prompt = ex_prompt x\<rparr>])"
  by (auto simp: append_extracted_def nonempty_def figure_items_def process_figure_def Let_def
      split: sum.splits)

text \<open>
  An overlay URL that is the empty string is not \<^verbatim>\<open>None\<close>, yet \<^verbatim>\<open>or\<close> passes it over:
  the record then carries the inline preview URL.
\<close>

theorem overlay_url_empty_counterexample:
  "read_video_src (fig_video empty_src_figure) = Some ''https://cdn/preview.mp4'' \<and>
   extract_prompt_from_popup (fig_modal empty_src_figure) =
     Inr (Some \<lparr>ex_video_url = Some [], ex_prompt = Some ''a cat''\<rparr>) \<and>
   scrape_single_subcategory (static_page [empty_src_figure] [empty_src_figure]) =
     Inr [preview_item] \<and>
   item_video_url preview_item = Some ''https://cdn/preview.mp4''"
  by (simp add: scrape_single_subcategory_def scrape_body_def static_page_def locate_figures_def
      figure_defs)

theorem overlay_url_wins_when_not_empty_witness:
  "ex_video_url \<lparr>ex_video_url = Some ''https://cdn/full.mp4'', ex_prompt = None\<rparr> =
     Some ''https://cdn/full.mp4'' \<and>
   append_extracted (Some ''https://cdn/preview.mp4'')
     (Some \<lparr>ex_video_url = Some ''https://cdn/full.mp4'', ex_prompt = None\<rparr>) [] =
     [\<lparr>item_video_url = Some ''https://cdn/full.mp4'', item_prompt = None\<rparr>] \<and>
   read_video_src (fig_video example_figure) = Some ''https://cdn/preview.mp4'' \<and>
   extract_prompt_from_popup (fig_modal example_figure) =
     Inr (Some \<lparr>ex_video_url = Some ''https://cdn/full.mp4'', ex_prompt = Some ''a cat''\<rparr>) \<and>
   fig_link example_figure = Inr example_link \<and> click_link example_link \<and>
   fig_scroll example_figure = Inr () \<and>
   figure_items example_figure =
     [\<lparr>item_video_url = Some ''https://cdn/full.mp4'', item_prompt = Some ''a cat''\<rparr>]"
proof -
  have a: "read_video_src (fig_video example_figure) = Some ''https://cdn/preview.mp4''"
    by (simp add: figure_defs)
  have b: "extract_prompt_from_popup (fig_modal example_figure) =
     Inr (Some \<lparr>ex_video_url = Some ''https://cdn/full.mp4'', ex_prompt = Some ''a cat''\<rparr>)"
    by (simp add: figure_defs)
  have c: "fig_link example_figure = Inr example_link \<and> click_link example_link \<and>
           fig_scroll example_figure = Inr ()"
    by (simp add: figure_defs)
  have d: "''https://cdn/full.mp4'' \<noteq> []"
    by simp
  from overlay_url_wins_when_not_empty
         [where d = "\<lparr>ex_video_url = Some ''https://cdn/full.mp4'', ex_prompt = None\<rparr>"
            and overlay_url = "''https://cdn/full.mp4''"
            and preview = "Some ''https://cdn/preview.mp4''" and videos_data = "[]"
            and fig = example_figure and preview_url = "''https://cdn/preview.mp4''"
            and x = "\<lparr>ex_video_url = Some ''https://cdn/full.mp4'', ex_prompt = Some ''a cat''\<rparr>"
            and url = "''https://cdn/full.mp4''" and l = example_link]
       a b c d
  show ?thesis
    by simp
qed

subsection \<open>Locating the figures\<close>

text \<open>
  Claim C2 fails on the code. On a page where the primary selector matches nothing, the
  five-second wait for it raises before the looser selector is ever asked, and the
  \<^verbatim>\<open>except\<close> branch returns the empty list, whatever the looser selector would have
  found; here it would have found a figure that yields an item.
\<close>

theorem fallback_selector_not_reached:
  "find_primary (static_page [] looser) = Inr [] \<and>
   find_fallback (static_page [] looser) = Inr looser \<and>
   locate_figures (static_page [] looser) = Inl TimeoutException \<and>
   scrape_single_subcategory (static_page [] looser) = Inr [] \<and>
   scrape_figures [example_figure] [] = [example_item] \<and>
   scrape_single_subcategory (static_page [] [example_figure]) = Inr []"
  by (simp add: scrape_single_subcategory_def scrape_body_def static_page_def locate_figures_def
      scrape_figures_concat example_figure_items)

end
